theory Spec2Isabelle
  imports Main "HOL-Library.Word"
begin

unbundle bit_operations_syntax

section \<open>The integer backend\<close>

text \<open>
  The library is generic in a big-integer type \<open>BIT\<close> reached through the \<open>Integers\<close>
  interface.  Both shipped instances (JSBI in the tests, native \<open>bigint\<close> in
  \<open>NativeBigInt\<close>) are unbounded integers, modelled by \<^typ>\<open>int\<close>.  Division and
  remainder truncate towards zero; both raise on a zero divisor, which the callers
  below never pass (the divisor is a curve constant or guarded by a loop test).
\<close>

definition divide :: "int \<Rightarrow> int \<Rightarrow> int" where
  "divide a b = sgn a * sgn b * (\<bar>a\<bar> div \<bar>b\<bar>)"

definition remainder :: "int \<Rightarrow> int \<Rightarrow> int" where
  "remainder n m = sgn n * (\<bar>n\<bar> mod \<bar>m\<bar>)"

text \<open>
  The two instances differ where a \<open>BIT\<close> is used as a condition: a JSBI value is an
  object and always truthy, a native \<open>bigint\<close> is falsy when it is zero.
\<close>

datatype backend = JSBI | Native

fun truthy :: "backend \<Rightarrow> int \<Rightarrow> bool" where
  "truthy JSBI x = True"
| "truthy Native x = (x \<noteq> 0)"

datatype error = TypeError string | RangeError string | Error string

section \<open>Curve parameters (curve.ts)\<close>

definition CURVE_a :: int where
  "CURVE_a = - 1"

definition CURVE_d :: int where
  "CURVE_d = 37095705934669439343138083508754565189542113879843219016388785533085940283555"

definition CURVE_P :: int where
  "CURVE_P = 57896044618658097711785492504343953926634992332820282019728792003956564819949"

definition CURVE_n :: int where
  "CURVE_n = 7237005577332262213973186563042994240857116359379907606001950938285454250989"

definition CURVE_h :: int where
  "CURVE_h = 8"

definition CURVE_Gx :: int where
  "CURVE_Gx = 15112221349535400772501151409588531511454012693041857206046113283949847762202"

definition CURVE_Gy :: int where
  "CURVE_Gy = 46316835694926478169428394003475163141307993866256225615783033603165251855960"

definition SQRT_M1 :: int where
  "SQRT_M1 = 19681161376707505956807079304988542015446066515923890162744021073123829784752"

definition SQRT_AD_MINUS_ONE :: int where
  "SQRT_AD_MINUS_ONE = 25063068953384623474111414158702152701244531502492656460079210482610430750235"

definition INVSQRT_A_MINUS_D :: int where
  "INVSQRT_A_MINUS_D = 54469307008909316920995813868745141605393597292927456921205312896311721017578"

definition ONE_MINUS_D_SQ :: int where
  "ONE_MINUS_D_SQ = 1159843021668779879193775521855586647937357759715417654439879720876111806838"

definition D_MINUS_ONE_SQ :: int where
  "D_MINUS_ONE_SQ = 40440834346308536858101042469323190826248399146238708352240133220865137265952"

definition isWithinCurveOrder :: "int \<Rightarrow> bool" where
  "isWithinCurveOrder num = (0 < num \<and> num < CURVE_n)"

section \<open>Field arithmetic (math.ts)\<close>

text \<open>\<open>math.mod(a, b)\<close>; the one-argument call \<open>math.mod(a)\<close> is \<open>math_mod a CURVE_P\<close>.\<close>

definition math_mod :: "int \<Rightarrow> int \<Rightarrow> int" where
  "math_mod a b = (let res = remainder a b in if res \<ge> 0 then res else b + res)"

definition edIsNegative :: "int \<Rightarrow> bool" where
  "edIsNegative num = ((math_mod num CURVE_P) AND 1 = 1)"

text \<open>
  The loop of \<open>invert\<close> on the state \<open>(a, b, x, y, u, v)\<close>.  It stops when \<open>a = 0\<close>;
  each round replaces \<open>a\<close> by \<open>b % a\<close>, which is smaller in absolute value.
\<close>

function invert_loop :: "int \<Rightarrow> int \<Rightarrow> int \<Rightarrow> int \<Rightarrow> int \<Rightarrow> int \<Rightarrow> int \<times> int" where
  "invert_loop a b x y u v =
    (if a \<noteq> 0 then
       (let q = divide b a;
            r = remainder b a;
            m = x - u * q;
            n = y - v * q
        in invert_loop r a u v m n)
     else (b, x))"
  by pat_completeness auto
termination
proof (relation "measure (\<lambda>(a, b, x, y, u, v). nat \<bar>a\<bar>)")
  show "wf (measure (\<lambda>(a, b, x, y, u, v). nat \<bar>a\<bar>))"
    by simp
next
  fix a b x y u v :: int and q r m n :: int
  assume a: "a \<noteq> 0" and r: "r = remainder b a"
  have "\<bar>b\<bar> mod \<bar>a\<bar> < \<bar>a\<bar>" "0 \<le> \<bar>b\<bar> mod \<bar>a\<bar>"
    using a by simp_all
  then have "\<bar>remainder b a\<bar> < \<bar>a\<bar>"
    by (cases "b = 0") (simp_all add: remainder_def abs_mult abs_sgn_eq)
  then show "((r, a, u, v, m, n), (a, b, x, y, u, v)) \<in> measure (\<lambda>(a, b, x, y, u, v). nat \<bar>a\<bar>)"
    using r by simp
qed

declare invert_loop.simps [simp del]

definition invert :: "int \<Rightarrow> int \<Rightarrow> error + int" where
  "invert number modulus =
    (if number = 0 \<or> modulus \<le> 0 then Inl (Error ''invert: expected positive integers'')
     else
       (let a = math_mod number modulus;
            b = modulus;
            (gcd, x) = invert_loop a b 0 1 1 0
        in if gcd \<noteq> 1 then Inl (Error ''invert: does not exist'')
           else Inr (math_mod x modulus)))"

text \<open>
  \<open>invertBatch\<close>: the forward pass skips zero entries and leaves their scratch slot
  unset (\<open>None\<close>); the backward pass skips the same entries, so an unset slot is
  never read.
\<close>

fun invertBatch_fwd :: "int list \<Rightarrow> int \<Rightarrow> int \<Rightarrow> int option list \<times> int" where
  "invertBatch_fwd [] n acc = ([], acc)"
| "invertBatch_fwd (x # xs) n acc =
    (if x = 0 then
       (let (scratch, acc') = invertBatch_fwd xs n acc in (None # scratch, acc'))
     else
       (let (scratch, acc') = invertBatch_fwd xs n (math_mod (acc * x) n)
        in (Some acc # scratch, acc')))"

text \<open>The backward pass runs from the last index down; it is given both lists reversed.\<close>

fun invertBatch_bwd :: "int list \<Rightarrow> int option list \<Rightarrow> int \<Rightarrow> int \<Rightarrow> int list" where
  "invertBatch_bwd (x # xs) (s # ss) n acc =
    (if x = 0 then x # invertBatch_bwd xs ss n acc
     else
       (let tmp = math_mod (acc * x) n
        in math_mod (acc * the s) n # invertBatch_bwd xs ss n tmp))"
| "invertBatch_bwd _ _ n acc = []"

definition invertBatch :: "int list \<Rightarrow> int \<Rightarrow> error + int list" where
  "invertBatch nums n =
    (let (scratch, acc) = invertBatch_fwd nums n 1
     in case invert acc n of
          Inl e \<Rightarrow> Inl e
        | Inr acc' \<Rightarrow> Inr (rev (invertBatch_bwd (rev nums) (rev scratch) n acc')))"

function pow2 :: "int \<Rightarrow> int \<Rightarrow> int" where
  "pow2 x pwr = (if pwr > 0 then pow2 (remainder (x * x) CURVE_P) (pwr - 1) else x)"
  by pat_completeness auto
termination
  by (relation "measure (\<lambda>(x, pwr). nat pwr)") auto

declare pow2.simps [simp del]

definition pow_2_252_3 :: "int \<Rightarrow> int" where
  "pow_2_252_3 x =
    (let x2 = remainder (x * x) CURVE_P;
         b2 = remainder (x2 * x) CURVE_P;
         b4 = remainder (pow2 b2 2 * b2) CURVE_P;
         b5 = remainder (pow2 b4 1 * x) CURVE_P;
         b10 = remainder (pow2 b5 5 * b5) CURVE_P;
         b20 = remainder (pow2 b10 10 * b10) CURVE_P;
         b40 = remainder (pow2 b20 20 * b20) CURVE_P;
         b80 = remainder (pow2 b40 40 * b40) CURVE_P;
         b160 = remainder (pow2 b80 80 * b80) CURVE_P;
         b240 = remainder (pow2 b160 80 * b80) CURVE_P;
         b250 = remainder (pow2 b240 10 * b10) CURVE_P;
         pow_p_5_8 = remainder (pow2 b250 2 * x) CURVE_P
     in pow_p_5_8)"

text \<open>\<open>uvRatio\<close> returns the object \<open>{isValid, value}\<close>, here the pair \<open>(isValid, value)\<close>.\<close>

definition uvRatio :: "int \<Rightarrow> int \<Rightarrow> bool \<times> int" where
  "uvRatio u v =
    (let v3 = math_mod (v * v * v) CURVE_P;
         v7 = math_mod (v3 * v3 * v) CURVE_P;
         x = math_mod (u * v3 * pow_2_252_3 (u * v7)) CURVE_P;
         vx2 = math_mod (v * x * x) CURVE_P;
         root1 = x;
         root2 = math_mod (x * SQRT_M1) CURVE_P;
         useRoot1 = (vx2 = u);
         useRoot2 = (vx2 = math_mod (- u) CURVE_P);
         noRoot = (vx2 = math_mod (- u * SQRT_M1) CURVE_P);
         x = (if useRoot1 then root1 else x);
         x = (if useRoot2 \<or> noRoot then root2 else x);
         x = (if edIsNegative x then math_mod (- x) CURVE_P else x)
     in (useRoot1 \<or> useRoot2, x))"

definition invertSqrt :: "int \<Rightarrow> bool \<times> int" where
  "invertSqrt number = uvRatio 1 number"


section \<open>Serialization (serialization.ts)\<close>

text \<open>
  A \<open>Uint8Array\<close> is a list of bytes.  A JavaScript string is a list of code units;
  the model keeps the code units below 256 (\<^typ>\<open>char\<close>), which covers every hex
  string.  A \<open>number\<close> is modelled where it holds an integer; \<open>Number.isSafeInteger\<close>
  is false for every other number, so an unsafe integer stands for them too.
\<close>

type_synonym byte = "8 word"

definition B32 :: nat where
  "B32 = 32"

datatype Hex = HexString string | HexBytes "byte list"

datatype Scalar = JsNumber int | JsBigInt int

datatype PrivKey = KeyString string | KeyBytes "byte list" | KeyBigInt int | KeyNumber int

definition isSafeInteger :: "int \<Rightarrow> bool" where
  "isSafeInteger n = (\<bar>n\<bar> \<le> 2 ^ 53 - 1)"

definition hexDigit :: "nat \<Rightarrow> char" where
  "hexDigit d = ''0123456789abcdef'' ! d"

text \<open>\<open>toString(16)\<close> of a non-negative integer: no leading zero, \<open>0\<close> is \<open>''0''\<close>.\<close>

fun hexString :: "nat \<Rightarrow> string" where
  "hexString n = (if n < 16 then [hexDigit n] else hexString (n div 16) @ [hexDigit (n mod 16)])"

declare hexString.simps [simp del]

definition toString16 :: "int \<Rightarrow> string" where
  "toString16 n = (if n < 0 then CHR ''-'' # hexString (nat (- n)) else hexString (nat n))"

definition padStart :: "string \<Rightarrow> nat \<Rightarrow> char \<Rightarrow> string" where
  "padStart str len c = replicate (len - length str) c @ str"

definition numberToHex :: "int \<Rightarrow> string" where
  "numberToHex num = (let hex = toString16 num in if odd (length hex) then CHR ''0'' # hex else hex)"

text \<open>
  \<open>Number.parseInt(s, 16)\<close>: leading white space is skipped, then a sign, then a
  \<open>0x\<close> prefix; the longest run of hex digits is the value, and there is no value
  (\<open>NaN\<close>, here \<open>None\<close>) when the run is empty.
\<close>

definition isWhiteSpace :: "char \<Rightarrow> bool" where
  "isWhiteSpace c = (c \<in> set [CHR 0x09, CHR 0x0A, CHR 0x0B, CHR 0x0C, CHR 0x0D, CHR 0x20, CHR 0xA0])"

definition hexVal :: "char \<Rightarrow> nat option" where
  "hexVal c =
    (let k = of_char c :: nat in
     if 48 \<le> k \<and> k \<le> 57 then Some (k - 48)
     else if 97 \<le> k \<and> k \<le> 102 then Some (k - 87)
     else if 65 \<le> k \<and> k \<le> 70 then Some (k - 55)
     else None)"

definition parseInt16 :: "string \<Rightarrow> int option" where
  "parseInt16 str =
    (let s1 = dropWhile isWhiteSpace str;
         (sign, s2) = (case s1 of
                         c # r \<Rightarrow> if c = CHR ''-'' then (- 1, r)
                                  else if c = CHR ''+'' then (1, r) else (1, s1)
                       | [] \<Rightarrow> (1 :: int, s1));
         s3 = (case s2 of
                 c # d # r \<Rightarrow> if c = CHR ''0'' \<and> (d = CHR ''x'' \<or> d = CHR ''X'') then r else s2
               | _ \<Rightarrow> s2);
         digits = takeWhile (\<lambda>c. hexVal c \<noteq> None) s3
     in if digits = [] then None
        else Some (sign * int (foldl (\<lambda>acc c. 16 * acc + the (hexVal c)) 0 digits)))"

text \<open>Storing a number into a \<open>Uint8Array\<close>: \<open>NaN\<close> becomes 0, an integer wraps.\<close>

definition toUint8 :: "int option \<Rightarrow> byte" where
  "toUint8 v = (case v of None \<Rightarrow> 0 | Some n \<Rightarrow> word_of_int n)"

definition slice :: "'a list \<Rightarrow> nat \<Rightarrow> nat \<Rightarrow> 'a list" where
  "slice xs i j = take (j - i) (drop i xs)"

definition hexToBytes :: "string \<Rightarrow> error + byte list" where
  "hexToBytes hex =
    (if odd (length hex) then Inl (Error ''hexToBytes: received invalid unpadded hex'')
     else Inr (map (\<lambda>i. toUint8 (parseInt16 (slice hex (i * 2) (i * 2 + 2))))
                 [0 ..< length hex div 2]))"

definition bytesToHex :: "byte list \<Rightarrow> string" where
  "bytesToHex uint8a = concat (map (\<lambda>b. padStart (toString16 (uint b)) 2 (CHR ''0'')) uint8a)"

definition ensureBytes :: "Hex \<Rightarrow> error + byte list" where
  "ensureBytes hash = (case hash of HexBytes b \<Rightarrow> Inr b | HexString str \<Rightarrow> hexToBytes str)"

definition numberToBytesPadded :: "int \<Rightarrow> nat \<Rightarrow> error + byte list" where
  "numberToBytesPadded num len =
    (let hex = padStart (numberToHex num) (len * 2) (CHR ''0'')
     in case hexToBytes hex of Inl e \<Rightarrow> Inl e | Inr bs \<Rightarrow> Inr (rev bs))"

definition isValidScalar :: "Scalar \<Rightarrow> bool" where
  "isValidScalar num =
    (case num of
       JsBigInt n \<Rightarrow> n > 0
     | JsNumber n \<Rightarrow> n > 0 \<and> isSafeInteger n)"

fun bytesToNumberLE_loop :: "byte list \<Rightarrow> nat \<Rightarrow> int \<Rightarrow> int" where
  "bytesToNumberLE_loop [] i val = val"
| "bytesToNumberLE_loop (b # bs) i val =
     bytesToNumberLE_loop bs (i + 1) (val + push_bit (8 * i) (uint b))"

definition bytesToNumberLE :: "byte list \<Rightarrow> int" where
  "bytesToNumberLE uint8a = bytesToNumberLE_loop uint8a 0 0"

definition concatBytes :: "byte list list \<Rightarrow> byte list" where
  "concatBytes arrays = concat arrays"

definition equalBytes :: "byte list \<Rightarrow> byte list \<Rightarrow> bool" where
  "equalBytes b1 b2 =
    (length b1 = length b2 \<and> list_all (\<lambda>i. b1 ! i = b2 ! i) [0 ..< length b1])"


section \<open>Extended points (points.ts, class ExtendedPoint)\<close>

record ExtendedPoint =
  ex :: int
  ey :: int
  ez :: int
  et :: int

text \<open>
  What \<open>fromAffine\<close> may be handed at run time: an object with \<open>x\<close> and \<open>y\<close>, which
  carries \<open>z\<close> and \<open>t\<close> when it is an extended point.
\<close>

record PointObj =
  obj_x :: int
  obj_y :: int
  obj_z :: "int option"
  obj_t :: "int option"

definition objOfExtended :: "ExtendedPoint \<Rightarrow> PointObj" where
  "objOfExtended e = \<lparr>obj_x = ex e, obj_y = ey e, obj_z = Some (ez e), obj_t = Some (et e)\<rparr>"

definition affineObj :: "int \<Rightarrow> int \<Rightarrow> PointObj" where
  "affineObj a b = \<lparr>obj_x = a, obj_y = b, obj_z = None, obj_t = None\<rparr>"

fun truthyField :: "backend \<Rightarrow> int option \<Rightarrow> bool" where
  "truthyField bk None = False"
| "truthyField bk (Some v) = truthy bk v"

definition basePoint :: "int \<times> int" where
  "basePoint = (CURVE_Gx, CURVE_Gy)"

definition zeroPoint :: "int \<times> int" where
  "zeroPoint = (0, 0)"

definition pointEquals :: "int \<times> int \<Rightarrow> int \<times> int \<Rightarrow> bool" where
  "pointEquals p q = (fst p = fst q \<and> snd p = snd q)"

definition ExtendedPoint_BASE :: ExtendedPoint where
  "ExtendedPoint_BASE =
    \<lparr>ex = CURVE_Gx, ey = CURVE_Gy, ez = 1, et = math_mod (CURVE_Gx * CURVE_Gy) CURVE_P\<rparr>"

definition ExtendedPoint_ZERO :: ExtendedPoint where
  "ExtendedPoint_ZERO = \<lparr>ex = 0, ey = 1, ez = 1, et = 0\<rparr>"

definition fromAffine :: "backend \<Rightarrow> PointObj \<Rightarrow> error + ExtendedPoint" where
  "fromAffine bk p =
    (if \<not> (truthy bk (obj_x p) \<and> truthy bk (obj_y p)
            \<and> \<not> truthyField bk (obj_z p) \<and> \<not> truthyField bk (obj_t p))
     then Inl (TypeError ''ExtendedPoint#fromAffine: expected Point'')
     else if pointEquals (obj_x p, obj_y p) zeroPoint then Inr ExtendedPoint_ZERO
     else Inr \<lparr>ex = obj_x p, ey = obj_y p, ez = 1,
               et = math_mod (obj_x p * obj_y p) CURVE_P\<rparr>)"

text \<open>\<open>toAffine(invZ)\<close> with the inverse given, and \<open>toAffine()\<close> with its default.\<close>

definition toAffine_with :: "ExtendedPoint \<Rightarrow> int \<Rightarrow> int \<times> int" where
  "toAffine_with e invZ = (math_mod (ex e * invZ) CURVE_P, math_mod (ey e * invZ) CURVE_P)"

definition toAffine :: "ExtendedPoint \<Rightarrow> error + int \<times> int" where
  "toAffine e = (case invert (ez e) CURVE_P of Inl err \<Rightarrow> Inl err | Inr invZ \<Rightarrow> Inr (toAffine_with e invZ))"

definition toAffineBatch :: "ExtendedPoint list \<Rightarrow> error + (int \<times> int) list" where
  "toAffineBatch points =
    (case invertBatch (map ez points) CURVE_P of
       Inl err \<Rightarrow> Inl err
     | Inr toInv \<Rightarrow> Inr (map (\<lambda>(p, i). toAffine_with p i) (zip points toInv)))"

text \<open>Mapping a function that may raise over an array: the first error ends the map.\<close>

fun mapM :: "('a \<Rightarrow> error + 'b) \<Rightarrow> 'a list \<Rightarrow> error + 'b list" where
  "mapM f [] = Inr []"
| "mapM f (a # as) =
    (case f a of
       Inl err \<Rightarrow> Inl err
     | Inr b \<Rightarrow> (case mapM f as of Inl err \<Rightarrow> Inl err | Inr bs \<Rightarrow> Inr (b # bs)))"

definition normalizeZ :: "backend \<Rightarrow> ExtendedPoint list \<Rightarrow> error + ExtendedPoint list" where
  "normalizeZ bk points =
    (case toAffineBatch points of
       Inl err \<Rightarrow> Inl err
     | Inr affs \<Rightarrow> mapM (\<lambda>(a, b). fromAffine bk (affineObj a b)) affs)"

definition ExtendedPoint_equals :: "ExtendedPoint \<Rightarrow> ExtendedPoint \<Rightarrow> bool" where
  "ExtendedPoint_equals this other =
    (math_mod (et this * ez other) CURVE_P = math_mod (et other * ez this) CURVE_P)"

definition ristrettoEquals :: "ExtendedPoint \<Rightarrow> ExtendedPoint \<Rightarrow> bool" where
  "ristrettoEquals this other =
    (ExtendedPoint_equals this other
     \<or> math_mod (ey this * ey other) CURVE_P = math_mod (ex this * ex other) CURVE_P)"

definition ExtendedPoint_negate :: "ExtendedPoint \<Rightarrow> ExtendedPoint" where
  "ExtendedPoint_negate this =
    \<lparr>ex = math_mod (- ex this) CURVE_P, ey = ey this, ez = ez this,
     et = math_mod (- et this) CURVE_P\<rparr>"

definition ExtendedPoint_double :: "ExtendedPoint \<Rightarrow> ExtendedPoint" where
  "ExtendedPoint_double this =
    (let X1 = ex this; Y1 = ey this; Z1 = ez this;
         A = math_mod (X1 * X1) CURVE_P;
         B = math_mod (Y1 * Y1) CURVE_P;
         C = math_mod (2 * Z1 * Z1) CURVE_P;
         D = math_mod (CURVE_a * A) CURVE_P;
         X1pY1 = X1 + Y1;
         E = math_mod (X1pY1 * X1pY1 - A - B) CURVE_P;
         G = math_mod (D + B) CURVE_P;
         F = math_mod (G - C) CURVE_P;
         H = math_mod (D - B) CURVE_P;
         X3 = math_mod (E * F) CURVE_P;
         Y3 = math_mod (G * H) CURVE_P;
         T3 = math_mod (E * H) CURVE_P;
         Z3 = math_mod (F * G) CURVE_P
     in \<lparr>ex = X3, ey = Y3, ez = Z3, et = T3\<rparr>)"

definition ExtendedPoint_add :: "ExtendedPoint \<Rightarrow> ExtendedPoint \<Rightarrow> ExtendedPoint" where
  "ExtendedPoint_add this other =
    (let X1 = ex this; Y1 = ey this; Z1 = ez this; T1 = et this;
         X2 = ex other; Y2 = ey other; Z2 = ez other; T2 = et other;
         A = math_mod ((Y1 - X1) * (Y2 + X2)) CURVE_P;
         B = math_mod ((Y1 + X1) * (Y2 - X2)) CURVE_P;
         F = math_mod (B - A) CURVE_P
     in if F = 0 then ExtendedPoint_double this
        else
          (let C = math_mod (Z1 * 2 * T2) CURVE_P;
               D = math_mod (T1 * 2 * Z2) CURVE_P;
               E = math_mod (D + C) CURVE_P;
               G = math_mod (B + A) CURVE_P;
               H = math_mod (D - C) CURVE_P;
               X3 = math_mod (E * F) CURVE_P;
               Y3 = math_mod (G * H) CURVE_P;
               T3 = math_mod (E * H) CURVE_P;
               Z3 = math_mod (F * G) CURVE_P
           in \<lparr>ex = X3, ey = Y3, ez = Z3, et = T3\<rparr>))"

definition ExtendedPoint_subtract :: "ExtendedPoint \<Rightarrow> ExtendedPoint \<Rightarrow> ExtendedPoint" where
  "ExtendedPoint_subtract this other = ExtendedPoint_add this (ExtendedPoint_negate other)"

text \<open>The loop of \<open>multiplyUnsafe\<close> on \<open>(n, p, d)\<close>; \<open>n\<close> is halved in each round.\<close>

function multiplyUnsafe_loop :: "int \<Rightarrow> ExtendedPoint \<Rightarrow> ExtendedPoint \<Rightarrow> ExtendedPoint" where
  "multiplyUnsafe_loop n p d =
    (if n > 0 then
       multiplyUnsafe_loop (drop_bit 1 n)
         (if n AND 1 \<noteq> 0 then ExtendedPoint_add p d else p) (ExtendedPoint_double d)
     else p)"
  by pat_completeness auto
termination
  by (relation "measure (\<lambda>(n, p, d). nat n)") (auto simp: drop_bit_eq_div)

declare multiplyUnsafe_loop.simps [simp del]

definition multiplyUnsafe :: "ExtendedPoint \<Rightarrow> int \<Rightarrow> error + ExtendedPoint" where
  "multiplyUnsafe this scalar =
    (if \<not> isValidScalar (JsBigInt scalar)
     then Inl (TypeError ''Point#multiply: expected number or bigint'')
     else
       (let n = math_mod scalar CURVE_n
        in if n = 1 then Inr this
           else Inr (multiplyUnsafe_loop n ExtendedPoint_ZERO this)))"

text \<open>
  \<open>precomputeWindow(W)\<close>: the inner loop runs \<open>2^(W-1) - 1\<close> times, the outer one
  \<open>256 / W + 1\<close> times (\<open>wNAF\<close> calls it with a \<open>W\<close> that divides 256).
\<close>

fun precompute_inner :: "ExtendedPoint \<Rightarrow> ExtendedPoint \<Rightarrow> nat \<Rightarrow> ExtendedPoint list \<times> ExtendedPoint" where
  "precompute_inner p base 0 = ([], base)"
| "precompute_inner p base (Suc k) =
    (let base' = ExtendedPoint_add base p;
         (points, last) = precompute_inner p base' k
     in (base' # points, last))"

fun precompute_outer :: "ExtendedPoint \<Rightarrow> nat \<Rightarrow> nat \<Rightarrow> ExtendedPoint list" where
  "precompute_outer p 0 k = []"
| "precompute_outer p (Suc windows) k =
    (let (points, base) = precompute_inner p p k
     in p # points @ precompute_outer (ExtendedPoint_double base) windows k)"

definition precomputeWindow :: "ExtendedPoint \<Rightarrow> nat \<Rightarrow> ExtendedPoint list" where
  "precomputeWindow this W = precompute_outer this (256 div W + 1) (2 ^ (W - 1) - 1)"

text \<open>
  The precompute registry is a \<open>WeakMap\<close> keyed by the identity of the affine point
  object; an object's identity is modelled by a reference number.  The hint
  \<open>affinePoint\<close> is then its reference and its \<open>_WINDOW_SIZE\<close> field.  The constant
  \<open>POINT_BASE\<close> is an object of its own, with no window size.
\<close>

type_synonym ref = nat

type_synonym registry = "ref \<Rightarrow> ExtendedPoint list option"

record Hint =
  hint_ref :: ref
  hint_WINDOW_SIZE :: "nat option"

definition POINT_BASE_ref :: ref where
  "POINT_BASE_ref = 0"

definition POINT_BASE_hint :: Hint where
  "POINT_BASE_hint = \<lparr>hint_ref = POINT_BASE_ref, hint_WINDOW_SIZE = None\<rparr>"

text \<open>
  \<open>Ints.BigInt(2 ** W - 1)\<close>: the subtraction is done on doubles, which is exact
  up to \<open>W = 53\<close> and rounds back to \<open>2 ** W\<close> above.
\<close>

definition wNAF_mask :: "nat \<Rightarrow> int" where
  "wNAF_mask W = (if W \<le> 53 then 2 ^ W - 1 else 2 ^ W)"

text \<open>Reading \<open>precomputes[i]\<close> and using it as a point raises when the slot is empty.\<close>

definition precomputes_at :: "ExtendedPoint list \<Rightarrow> int \<Rightarrow> error + ExtendedPoint" where
  "precomputes_at precomputes i =
    (if 0 \<le> i \<and> i < int (length precomputes) then Inr (precomputes ! nat i)
     else Inl (TypeError ''Cannot read properties of undefined''))"

text \<open>The window loop of \<open>wNAF\<close>: \<open>window\<close> counts up, \<open>k\<close> is the number of rounds left.\<close>

fun wNAF_loop ::
  "ExtendedPoint list \<Rightarrow> nat \<Rightarrow> nat \<Rightarrow> nat \<Rightarrow> int \<Rightarrow> ExtendedPoint \<Rightarrow> ExtendedPoint
    \<Rightarrow> error + ExtendedPoint \<times> ExtendedPoint" where
  "wNAF_loop precomputes W window 0 n p f = Inr (p, f)"
| "wNAF_loop precomputes W window (Suc k) n p f =
    (let windowSize = (2 :: int) ^ (W - 1);
         maxNumber = (2 :: int) ^ W;
         offset = int window * windowSize;
         wbits = n AND wNAF_mask W;
         n = drop_bit W n;
         (wbits, n) = (if wbits > windowSize then (wbits - maxNumber, n + 1) else (wbits, n))
     in if wbits = 0 then
          (case precomputes_at precomputes offset of
             Inl err \<Rightarrow> Inl err
           | Inr pr \<Rightarrow>
               wNAF_loop precomputes W (window + 1) k n p
                 (ExtendedPoint_add f (if window mod 2 \<noteq> 0 then ExtendedPoint_negate pr else pr)))
        else
          (case precomputes_at precomputes (offset + \<bar>wbits\<bar> - 1) of
             Inl err \<Rightarrow> Inl err
           | Inr cached \<Rightarrow>
               wNAF_loop precomputes W (window + 1) k n
                 (ExtendedPoint_add p (if wbits < 0 then ExtendedPoint_negate cached else cached)) f))"

definition wNAF ::
  "backend \<Rightarrow> registry \<Rightarrow> ExtendedPoint \<Rightarrow> int \<Rightarrow> Hint option
    \<Rightarrow> error + (ExtendedPoint \<times> ExtendedPoint) \<times> registry" where
  "wNAF bk reg this n affinePoint =
    (let affinePoint = (if affinePoint = None \<and> ExtendedPoint_equals this ExtendedPoint_BASE
                        then Some POINT_BASE_hint else affinePoint);
         W = (case affinePoint of
                None \<Rightarrow> 1
              | Some h \<Rightarrow> (case hint_WINDOW_SIZE h of None \<Rightarrow> 1 | Some w \<Rightarrow> if w = 0 then 1 else w))
     in if 256 mod W \<noteq> 0
        then Inl (Error ''Point#wNAF: Invalid precomputation window, must be power of 2'')
        else
          (let cached = (case affinePoint of None \<Rightarrow> None | Some h \<Rightarrow> reg (hint_ref h));
               computed =
                 (case cached of
                    Some pre \<Rightarrow> Inr (pre, reg)
                  | None \<Rightarrow>
                      (let pre = precomputeWindow this W
                       in case affinePoint of
                            None \<Rightarrow> Inr (pre, reg)
                          | Some h \<Rightarrow>
                              if W \<noteq> 1 then
                                (case normalizeZ bk pre of
                                   Inl err \<Rightarrow> Inl err
                                 | Inr pre' \<Rightarrow> Inr (pre', reg (hint_ref h := Some pre')))
                              else Inr (pre, reg)))
           in case computed of
                Inl err \<Rightarrow> Inl err
              | Inr (precomputes, reg') \<Rightarrow>
                  (case wNAF_loop precomputes W 0 (256 div W + 1) n
                          ExtendedPoint_ZERO ExtendedPoint_ZERO of
                     Inl err \<Rightarrow> Inl err
                   | Inr pf \<Rightarrow> Inr (pf, reg'))))"

definition scalarToBigInt :: "Scalar \<Rightarrow> int" where
  "scalarToBigInt scalar = (case scalar of JsNumber n \<Rightarrow> n | JsBigInt n \<Rightarrow> n)"

definition ExtendedPoint_multiply ::
  "backend \<Rightarrow> registry \<Rightarrow> ExtendedPoint \<Rightarrow> Scalar \<Rightarrow> Hint option
    \<Rightarrow> error + ExtendedPoint \<times> registry" where
  "ExtendedPoint_multiply bk reg this scalar affinePoint =
    (if \<not> isValidScalar scalar
     then Inl (TypeError ''Point#multiply: expected number or bigint'')
     else
       (let s = scalarToBigInt scalar;
            n = math_mod s CURVE_n
        in case wNAF bk reg this n affinePoint of
             Inl err \<Rightarrow> Inl err
           | Inr ((p, f), reg') \<Rightarrow>
               (case normalizeZ bk [p, f] of
                  Inl err \<Rightarrow> Inl err
                | Inr normed \<Rightarrow> Inr (hd normed, reg'))))"


subsection \<open>Ristretto\<close>

definition bytes255ToNumberLE :: "byte list \<Rightarrow> int" where
  "bytes255ToNumberLE bytes = math_mod (bytesToNumberLE bytes AND (2 ^ 255 - 1)) CURVE_P"

definition calcElligatorRistrettoMap :: "int \<Rightarrow> ExtendedPoint" where
  "calcElligatorRistrettoMap r0 =
    (let d = CURVE_d;
         r = math_mod (SQRT_M1 * (r0 * r0)) CURVE_P;
         Ns = math_mod ((r + 1) * ONE_MINUS_D_SQ) CURVE_P;
         c = - 1;
         D = math_mod ((c - d * r) * math_mod (r + d) CURVE_P) CURVE_P;
         (Ns_D_is_sq, s) = uvRatio Ns D;
         s' = math_mod (s * r0) CURVE_P;
         s' = (if \<not> edIsNegative s' then math_mod (- s') CURVE_P else s');
         s = (if \<not> Ns_D_is_sq then s' else s);
         c = (if \<not> Ns_D_is_sq then r else c);
         Nt = math_mod (c * (r - 1) * D_MINUS_ONE_SQ - D) CURVE_P;
         s2 = s * s;
         W0 = math_mod ((s + s) * D) CURVE_P;
         W1 = math_mod (Nt * SQRT_AD_MINUS_ONE) CURVE_P;
         W2 = math_mod (1 - s2) CURVE_P;
         W3 = math_mod (1 + s2) CURVE_P
     in \<lparr>ex = math_mod (W0 * W3) CURVE_P, ey = math_mod (W2 * W1) CURVE_P,
         ez = math_mod (W1 * W3) CURVE_P, et = math_mod (W0 * W2) CURVE_P\<rparr>)"

definition fromRistrettoHash :: "byte list \<Rightarrow> ExtendedPoint" where
  "fromRistrettoHash hash =
    (let r1 = bytes255ToNumberLE (slice hash 0 B32);
         R1 = calcElligatorRistrettoMap r1;
         r2 = bytes255ToNumberLE (slice hash B32 (B32 * 2));
         R2 = calcElligatorRistrettoMap r2
     in ExtendedPoint_add R1 R2)"

definition ristretto_emsg :: string where
  "ristretto_emsg = ''ExtendedPoint.fromRistrettoBytes: Cannot convert bytes to Ristretto Point''"

definition fromRistrettoBytes :: "byte list \<Rightarrow> error + ExtendedPoint" where
  "fromRistrettoBytes bytes =
    (let a = CURVE_a; d = CURVE_d;
         s = bytes255ToNumberLE bytes
     in case numberToBytesPadded s B32 of
          Inl err \<Rightarrow> Inl err
        | Inr sbytes \<Rightarrow>
            if \<not> equalBytes sbytes bytes \<or> edIsNegative s then Inl (Error ristretto_emsg)
            else
              (let s2 = math_mod (s * s) CURVE_P;
                   u1 = math_mod (1 + a * s2) CURVE_P;
                   u2 = math_mod (1 - a * s2) CURVE_P;
                   u1_2 = math_mod (u1 * u1) CURVE_P;
                   u2_2 = math_mod (u2 * u2) CURVE_P;
                   v = math_mod (a * (d * u1_2) - u2_2) CURVE_P;
                   (isValid, I) = invertSqrt (math_mod (v * u2_2) CURVE_P);
                   Dx = math_mod (I * u2) CURVE_P;
                   Dy = math_mod (I * Dx * v) CURVE_P;
                   x = math_mod ((s + s) * Dx) CURVE_P;
                   x = (if edIsNegative x then math_mod (- x) CURVE_P else x);
                   y = math_mod (u1 * Dy) CURVE_P;
                   t = math_mod (x * y) CURVE_P
               in if \<not> isValid \<or> edIsNegative t \<or> y = 0 then Inl (Error ristretto_emsg)
                  else Inr \<lparr>ex = x, ey = y, ez = 1, et = t\<rparr>))"

definition toRistrettoBytes :: "ExtendedPoint \<Rightarrow> error + byte list" where
  "toRistrettoBytes this =
    (let x = ex this; y = ey this; z = ez this; t = et this;
         u1 = math_mod ((z + y) * (z - y)) CURVE_P;
         u2 = math_mod (x * y) CURVE_P;
         invsqrt = snd (invertSqrt (math_mod (u1 * u2 * u2) CURVE_P));
         D1 = math_mod (invsqrt * u1) CURVE_P;
         D2 = math_mod (invsqrt * u2) CURVE_P;
         zInv = math_mod (D1 * D2 * t) CURVE_P;
         (x, y, D) =
           (if edIsNegative (t * zInv)
            then (math_mod (y * SQRT_M1) CURVE_P, math_mod (x * SQRT_M1) CURVE_P,
                  math_mod (D1 * INVSQRT_A_MINUS_D) CURVE_P)
            else (x, y, D2));
         y = (if edIsNegative (x * zInv) then math_mod (- y) CURVE_P else y);
         s = math_mod ((z - y) * D) CURVE_P;
         s = (if edIsNegative s then math_mod (- s) CURVE_P else s)
     in numberToBytesPadded s B32)"

section \<open>Key utilities (key-utils.ts)\<close>

definition keyPrefix :: "byte list \<Rightarrow> byte list" where
  "keyPrefix privateBytes = drop B32 privateBytes"

text \<open>A write past the end of a typed array is ignored, as \<open>xs[i := v]\<close> is.\<close>

definition encodePrivate :: "byte list \<Rightarrow> int" where
  "encodePrivate privateBytes =
    (let last = B32 - 1;
         head = slice privateBytes 0 B32;
         head = head[0 := (head ! 0) AND 248];
         head = head[last := (head ! last) AND 127];
         head = head[last := (head ! last) OR 64]
     in math_mod (bytesToNumberLE head) CURVE_n)"

definition normalizePrivateKey :: "PrivKey \<Rightarrow> error + byte list" where
  "normalizePrivateKey key =
    (let isInt = (case key of KeyBigInt n \<Rightarrow> True | KeyNumber n \<Rightarrow> isSafeInteger n | _ \<Rightarrow> False);
         num = (case key of KeyBigInt n \<Rightarrow> n | KeyNumber n \<Rightarrow> n | _ \<Rightarrow> 0)
     in if isInt \<and> (num < 0 \<or> num > 2 ^ 256)
        then Inl (Error ''Expected 32 bytes of private key'')
        else
          (let key = (if isInt then KeyString (padStart (toString16 num) (B32 * 2) (CHR ''0''))
                      else key)
           in case key of
                KeyString str \<Rightarrow>
                  if length str \<noteq> 64 then Inl (Error ''Expected 32 bytes of private key'')
                  else hexToBytes str
              | KeyBytes b \<Rightarrow>
                  if length b \<noteq> 32 then Inl (Error ''Expected 32 bytes of private key'')
                  else Inr b
              | _ \<Rightarrow> Inl (TypeError ''Expected valid private key'')))"

section \<open>Hashing (hash.ts)\<close>

text \<open>
  SHA-512 is outside the library: an injected implementation \<open>sha512Impl\<close>, else the
  platform's.  Either is modelled as a function from bytes to bytes, when present.
\<close>

record HashEnv =
  sha512Impl :: "(byte list \<Rightarrow> byte list) option"
  platformSha512 :: "(byte list \<Rightarrow> byte list) option"

definition sha512 :: "HashEnv \<Rightarrow> byte list \<Rightarrow> (byte list \<Rightarrow> byte list) option \<Rightarrow> error + byte list" where
  "sha512 env message impl =
    (case impl of
       Some h \<Rightarrow> Inr (h message)
     | None \<Rightarrow>
         (case platformSha512 env of
            Some h \<Rightarrow> Inr (h message)
          | None \<Rightarrow> Inl (Error ''SHA512 unavailable on platform'')))"

definition sha512ToNumberLE :: "HashEnv \<Rightarrow> byte list list \<Rightarrow> error + int" where
  "sha512ToNumberLE env args =
    (let messageArray = concatBytes args
     in case sha512 env messageArray (sha512Impl env) of
          Inl err \<Rightarrow> Inl err
        | Inr hash \<Rightarrow> Inr (math_mod (bytesToNumberLE hash) CURVE_n))"

section \<open>Affine points (points.ts, class Point)\<close>

record Point =
  px :: int
  py :: int
  WINDOW_SIZE :: "nat option"

definition new_Point :: "int \<Rightarrow> int \<Rightarrow> Point" where
  "new_Point a b = \<lparr>px = a, py = b, WINDOW_SIZE = None\<rparr>"

text \<open>\<open>Point.BASE\<close> as \<open>makeED\<close> leaves it, after \<open>Point.BASE._setWindowSize(8)\<close>.\<close>

definition Point_BASE_ref :: ref where
  "Point_BASE_ref = 1"

definition Point_BASE :: Point where
  "Point_BASE = \<lparr>px = CURVE_Gx, py = CURVE_Gy, WINDOW_SIZE = Some 8\<rparr>"

definition Point_ZERO :: Point where
  "Point_ZERO = new_Point 0 1"

definition Point_setWindowSize :: "registry \<Rightarrow> ref \<Rightarrow> Point \<Rightarrow> nat \<Rightarrow> Point \<times> registry" where
  "Point_setWindowSize reg r this windowSize =
    (this\<lparr>WINDOW_SIZE := Some windowSize\<rparr>, reg (r := None))"

definition Point_fromHex :: "Hex \<Rightarrow> error + Point" where
  "Point_fromHex hash =
    (case ensureBytes hash of
       Inl err \<Rightarrow> Inl err
     | Inr bytes \<Rightarrow>
         if length bytes \<noteq> 32 then Inl (Error ''Point.fromHex: expected 32 bytes'')
         else
           (let d = CURVE_d;
                last = bytes ! 31;
                normedLast = last AND NOT 0x80;
                isLastByteOdd = (last AND 0x80 \<noteq> 0);
                normed = slice bytes 0 31 @ [normedLast];
                y = bytesToNumberLE normed
            in if y \<ge> CURVE_P then Inl (Error ''Point.fromHex expects hex <= Fp'')
               else
                 (let y2 = math_mod (y * y) CURVE_P;
                      u = math_mod (y2 - 1) CURVE_P;
                      v = math_mod (d * y2 + 1) CURVE_P;
                      (isValid, x) = uvRatio u v
                  in if \<not> isValid then Inl (Error ''Point.fromHex: invalid y coordinate'')
                     else
                       (let isXOdd = (x AND 1 = 1);
                            x = (if isLastByteOdd \<noteq> isXOdd then math_mod (- x) CURVE_P else x)
                        in Inr (new_Point x y)))))"

definition Point_toRawBytes :: "Point \<Rightarrow> byte list" where
  "Point_toRawBytes this =
    (let hex = numberToHex (py this);
         k = min B32 (length hex div 2);
         u8 = map (\<lambda>j. toUint8 (parseInt16 (slice hex (length hex - 2 - 2 * j) (length hex - 2 * j))))
                [0 ..< k]
              @ replicate (B32 - k) 0;
         mask = (if px this AND 1 \<noteq> 0 then 0x80 else 0)
     in u8[B32 - 1 := (u8 ! (B32 - 1)) OR mask])"

definition Point_toHex :: "Point \<Rightarrow> string" where
  "Point_toHex this = bytesToHex (Point_toRawBytes this)"

definition Point_equals :: "Point \<Rightarrow> Point \<Rightarrow> bool" where
  "Point_equals this other = (px this = px other \<and> py this = py other)"

definition Point_negate :: "Point \<Rightarrow> Point" where
  "Point_negate this = new_Point (math_mod (- px this) CURVE_P) (py this)"

definition Point_add :: "backend \<Rightarrow> Point \<Rightarrow> Point \<Rightarrow> error + Point" where
  "Point_add bk this other =
    (case fromAffine bk (affineObj (px this) (py this)) of
       Inl err \<Rightarrow> Inl err
     | Inr e1 \<Rightarrow>
         (case fromAffine bk (affineObj (px other) (py other)) of
            Inl err \<Rightarrow> Inl err
          | Inr e2 \<Rightarrow>
              (case toAffine (ExtendedPoint_add e1 e2) of
                 Inl err \<Rightarrow> Inl err
               | Inr (a, b) \<Rightarrow> Inr (new_Point a b))))"

definition Point_subtract :: "backend \<Rightarrow> Point \<Rightarrow> Point \<Rightarrow> error + Point" where
  "Point_subtract bk this other = Point_add bk this (Point_negate other)"

text \<open>\<open>this.multiply(scalar)\<close> on the point object with reference \<open>r\<close>.\<close>

definition Point_multiply ::
  "backend \<Rightarrow> registry \<Rightarrow> ref \<Rightarrow> Point \<Rightarrow> Scalar \<Rightarrow> error + Point \<times> registry" where
  "Point_multiply bk reg r this scalar =
    (case fromAffine bk (affineObj (px this) (py this)) of
       Inl err \<Rightarrow> Inl err
     | Inr tmp \<Rightarrow>
         (case ExtendedPoint_multiply bk reg tmp scalar
                 (Some \<lparr>hint_ref = r, hint_WINDOW_SIZE = WINDOW_SIZE this\<rparr>) of
            Inl err \<Rightarrow> Inl err
          | Inr (prd, reg') \<Rightarrow>
              (case toAffine prd of
                 Inl err \<Rightarrow> Inl err
               | Inr (a, b) \<Rightarrow> Inr (new_Point a b, reg'))))"

definition Point_fromPrivateKey ::
  "HashEnv \<Rightarrow> backend \<Rightarrow> registry \<Rightarrow> PrivKey \<Rightarrow> error + Point \<times> registry" where
  "Point_fromPrivateKey env bk reg privateKey =
    (case normalizePrivateKey privateKey of
       Inl err \<Rightarrow> Inl err
     | Inr key \<Rightarrow>
         (case sha512 env key (sha512Impl env) of
            Inl err \<Rightarrow> Inl err
          | Inr privBytes \<Rightarrow>
              Point_multiply bk reg Point_BASE_ref Point_BASE (JsBigInt (encodePrivate privBytes))))"

section \<open>Signatures (signing.ts)\<close>

record Signature =
  sig_r :: Point
  sig_s :: int

datatype SigType = SigObj Signature | SigHex Hex

datatype PubKey = PubObj Point | PubHex Hex

definition Signature_fromHex :: "Hex \<Rightarrow> error + Signature" where
  "Signature_fromHex hex =
    (case ensureBytes hex of
       Inl err \<Rightarrow> Inl err
     | Inr bytes \<Rightarrow>
         (case Point_fromHex (HexBytes (slice bytes 0 32)) of
            Inl err \<Rightarrow> Inl err
          | Inr r \<Rightarrow>
              (let s = bytesToNumberLE (drop 32 bytes)
               in if \<not> isWithinCurveOrder s
                  then Inl (Error ''Signature.fromHex expects s <= CURVE.n'')
                  else Inr \<lparr>sig_r = r, sig_s = s\<rparr>)))"

definition Signature_toRawBytes :: "Signature \<Rightarrow> error + byte list" where
  "Signature_toRawBytes this =
    (case hexToBytes (numberToHex (sig_s this)) of
       Inl err \<Rightarrow> Inl err
     | Inr bs \<Rightarrow>
         (let numberBytes = rev bs
          in if length numberBytes > B32 then Inl (RangeError ''offset is out of bounds'')
             else
               (let sBytes = numberBytes @ replicate (B32 - length numberBytes) 0
                in Inr (Point_toRawBytes (sig_r this) @ sBytes))))"

definition Signature_toHex :: "Signature \<Rightarrow> error + string" where
  "Signature_toHex this =
    (case Signature_toRawBytes this of Inl err \<Rightarrow> Inl err | Inr b \<Rightarrow> Inr (bytesToHex b))"

definition getPublicKey ::
  "HashEnv \<Rightarrow> backend \<Rightarrow> registry \<Rightarrow> PrivKey \<Rightarrow> error + Hex \<times> registry" where
  "getPublicKey env bk reg privateKey =
    (case Point_fromPrivateKey env bk reg privateKey of
       Inl err \<Rightarrow> Inl err
     | Inr (key, reg') \<Rightarrow>
         Inr (case privateKey of
                KeyString str \<Rightarrow> HexString (Point_toHex key)
              | _ \<Rightarrow> HexBytes (Point_toRawBytes key), reg'))"

definition sign ::
  "HashEnv \<Rightarrow> backend \<Rightarrow> registry \<Rightarrow> Hex \<Rightarrow> PrivKey \<Rightarrow> error + Hex \<times> registry" where
  "sign env bk reg hash privateKey =
    (case normalizePrivateKey privateKey of
       Inl err \<Rightarrow> Inl err
     | Inr key \<Rightarrow>
     (case sha512 env key None of
       Inl err \<Rightarrow> Inl err
     | Inr privBytes \<Rightarrow>
     (let p = encodePrivate privBytes
      in case Point_multiply bk reg Point_BASE_ref Point_BASE (JsBigInt p) of
       Inl err \<Rightarrow> Inl err
     | Inr (P, reg1) \<Rightarrow>
     (case ensureBytes hash of
       Inl err \<Rightarrow> Inl err
     | Inr msg \<Rightarrow>
     (case sha512ToNumberLE env [keyPrefix privBytes, msg] of
       Inl err \<Rightarrow> Inl err
     | Inr r \<Rightarrow>
     (case Point_multiply bk reg1 Point_BASE_ref Point_BASE (JsBigInt r) of
       Inl err \<Rightarrow> Inl err
     | Inr (R, reg2) \<Rightarrow>
     (case sha512ToNumberLE env [Point_toRawBytes R, Point_toRawBytes P, msg] of
       Inl err \<Rightarrow> Inl err
     | Inr h \<Rightarrow>
     (let S = math_mod (r + h * p) CURVE_n;
          sig = \<lparr>sig_r = R, sig_s = S\<rparr>
      in case hash of
           HexString str \<Rightarrow>
             (case Signature_toHex sig of
                Inl err \<Rightarrow> Inl err | Inr hx \<Rightarrow> Inr (HexString hx, reg2))
         | HexBytes b \<Rightarrow>
             (case Signature_toRawBytes sig of
                Inl err \<Rightarrow> Inl err | Inr raw \<Rightarrow> Inr (HexBytes raw, reg2))))))))))"

definition verify :: "HashEnv \<Rightarrow> backend \<Rightarrow> SigType \<Rightarrow> Hex \<Rightarrow> PubKey \<Rightarrow> error + bool" where
  "verify env bk signature hash publicKey =
    (case ensureBytes hash of
       Inl err \<Rightarrow> Inl err
     | Inr hash \<Rightarrow>
     (case (case publicKey of PubObj pt \<Rightarrow> Inr pt | PubHex hx \<Rightarrow> Point_fromHex hx) of
       Inl err \<Rightarrow> Inl err
     | Inr pk \<Rightarrow>
     (case (case signature of SigObj sg \<Rightarrow> Inr sg | SigHex hx \<Rightarrow> Signature_fromHex hx) of
       Inl err \<Rightarrow> Inl err
     | Inr signature \<Rightarrow>
     (case sha512ToNumberLE env
             [Point_toRawBytes (sig_r signature), Point_toRawBytes pk, hash] of
       Inl err \<Rightarrow> Inl err
     | Inr hs \<Rightarrow>
     (case fromAffine bk (affineObj (px pk) (py pk)) of
       Inl err \<Rightarrow> Inl err
     | Inr epk \<Rightarrow>
     (case multiplyUnsafe epk hs of
       Inl err \<Rightarrow> Inl err
     | Inr Ph \<Rightarrow>
     (case multiplyUnsafe ExtendedPoint_BASE (sig_s signature) of
       Inl err \<Rightarrow> Inl err
     | Inr Gs \<Rightarrow>
     (case fromAffine bk (affineObj (px (sig_r signature)) (py (sig_r signature))) of
       Inl err \<Rightarrow> Inl err
     | Inr er \<Rightarrow>
     (let RPh = ExtendedPoint_add er Ph
      in case multiplyUnsafe (ExtendedPoint_subtract RPh Gs) 8 of
           Inl err \<Rightarrow> Inl err
         | Inr res \<Rightarrow> Inr (ExtendedPoint_equals res ExtendedPoint_ZERO))))))))))"


section \<open>Reduction modulo p on numerals\<close>

text \<open>
  Since \<open>p = 2^255 - 19\<close>, a non-negative \<open>x = hi \<cdot> 2^255 + lo\<close> is congruent to
  \<open>19 \<cdot> hi + lo\<close>.  Folding until the value is below \<open>2^255\<close> and subtracting \<open>p\<close> at
  most once gives \<open>x mod p\<close> with shifts, one small product and comparisons only.
  The functions below compute with the decimal numerals of \<open>2^255\<close> and \<open>p\<close>; they are
  proved equal to \<open>math_mod\<close> and \<open>remainder\<close> and then used to evaluate the model on
  concrete inputs.
\<close>

definition fold255 :: "int \<Rightarrow> int" where
  "fold255 x = (let hi = drop_bit 255 x in 19 * hi + (x - hi * 57896044618658097711785492504343953926634992332820282019728792003956564819968))"

function redP :: "int \<Rightarrow> int" where
  "redP x =
    (if x < 57896044618658097711785492504343953926634992332820282019728792003956564819968
     then (if x < 57896044618658097711785492504343953926634992332820282019728792003956564819949
           then x
           else x - 57896044618658097711785492504343953926634992332820282019728792003956564819949)
     else redP (fold255 x))"
  by pat_completeness auto
termination
proof (relation "measure nat")
  show "wf (measure nat)"
    by simp
next
  fix x :: int
  assume big: "\<not> x < 57896044618658097711785492504343953926634992332820282019728792003956564819968"
  define hi where "hi = drop_bit 255 x"
  have "x = hi * 2 ^ 255 + take_bit 255 x"
    unfolding hi_def by (simp only: drop_bit_eq_div take_bit_eq_mod div_mult_mod_eq)
  moreover have "(2::int) ^ 255 = 57896044618658097711785492504343953926634992332820282019728792003956564819968"
    by simp
  ultimately have x: "x = hi * 57896044618658097711785492504343953926634992332820282019728792003956564819968 + take_bit 255 x"
    by simp
  have lo: "0 \<le> take_bit 255 x" "take_bit 255 x < 57896044618658097711785492504343953926634992332820282019728792003956564819968"
    using take_bit_nonnegative [of 255 x] take_bit_int_less_exp [of 255 x] by simp_all
  have "\<not> hi \<le> 0"
  proof
    assume "hi \<le> 0"
    then have "hi * 57896044618658097711785492504343953926634992332820282019728792003956564819968 \<le> 0"
      by (simp add: mult_le_0_iff)
    then show False
      using x lo big by linarith
  qed
  then have hi: "1 \<le> hi"
    by simp
  have "fold255 x = 19 * hi + (x - hi * 57896044618658097711785492504343953926634992332820282019728792003956564819968)"
    by (simp add: fold255_def Let_def hi_def)
  then have "0 \<le> fold255 x \<and> fold255 x < x"
    using x lo hi by linarith
  then show "(fold255 x, x) \<in> measure nat"
    by simp
qed

declare redP.simps [simp del]

definition modP :: "int \<Rightarrow> int" where
  "modP a =
    (if 0 \<le> a then redP a
     else (let r = redP (- a) in
           if r = 0 then 0
           else 57896044618658097711785492504343953926634992332820282019728792003956564819949 - r))"

section \<open>Arithmetic facts\<close>

lemma CURVE_P_pos: "0 < CURVE_P"
  by (simp add: CURVE_P_def)

lemma math_mod_pos: "0 < b \<Longrightarrow> math_mod a b = a mod b"
proof -
  assume b: "0 < b"
  show ?thesis
  proof (cases "0 \<le> a")
    case True
    then have "remainder a b = a mod b"
      using b by (cases "a = 0") (simp_all add: remainder_def)
    moreover have "0 \<le> a mod b" using b by simp
    ultimately show ?thesis by (simp add: math_mod_def)
  next
    case False
    then have neg: "a < 0" by simp
    then have r: "remainder a b = - ((- a) mod b)"
      using b by (simp add: remainder_def)
    show ?thesis
    proof (cases "(- a) mod b = 0")
      case True
      then have "a mod b = 0"
        by (metis dvd_minus_iff mod_0_imp_dvd dvd_imp_mod_0)
      with True r show ?thesis by (simp add: math_mod_def)
    next
      case False
      moreover have "0 \<le> (- a) mod b" using b by simp
      ultimately have "0 < (- a) mod b" by simp
      moreover have "a mod b = b - (- a) mod b"
        using False by (metis minus_minus zmod_zminus1_eq_if)
      ultimately show ?thesis using r by (simp add: math_mod_def)
    qed
  qed
qed

lemma math_mod_P: "math_mod a CURVE_P = a mod CURVE_P"
  by (rule math_mod_pos [OF CURVE_P_pos])

lemma SQRT_M1_sq: "(SQRT_M1 * SQRT_M1) mod CURVE_P = CURVE_P - 1"
proof -
  have "\<exists>q. SQRT_M1 * SQRT_M1 = (CURVE_P - 1) + q * CURVE_P"
    by (rule exI [of _ "6690407189080634018507799843845558368979872843924222843531373839242004886244"]) (simp add: SQRT_M1_def CURVE_P_def)
  then obtain q where "SQRT_M1 * SQRT_M1 = (CURVE_P - 1) + q * CURVE_P" ..
  then have "(SQRT_M1 * SQRT_M1) mod CURVE_P = (CURVE_P - 1) mod CURVE_P"
    by (simp only: mod_mult_self1)
  then show ?thesis
    using CURVE_P_pos by (simp add: zmod_minus1)
qed

lemma odd_CURVE_P: "odd CURVE_P"
  by (simp add: CURVE_P_def)

lemma neg_mod_sq: "((- x) mod CURVE_P * ((- x) mod CURVE_P)) mod CURVE_P = (x * x) mod CURVE_P"
  by (metis mod_mult_eq mult_minus_left mult_minus_right minus_minus)


lemma and_one_odd: "(x::int) AND 1 = 1 \<longleftrightarrow> odd x"
  by (simp add: and_one_eq mod_2_eq_odd)

lemma and_one_even: "(x::int) AND 1 = 0 \<longleftrightarrow> even x"
  by (simp add: and_one_eq mod_2_eq_odd)

lemma uvRatio_sign_step:
  assumes "0 \<le> y" "y < CURVE_P"
  defines "z \<equiv> (if edIsNegative y then math_mod (- y) CURVE_P else y)"
  shows "0 \<le> z \<and> z < CURVE_P \<and> z AND 1 = 0 \<and> (z * z) mod CURVE_P = (y * y) mod CURVE_P"
proof (cases "edIsNegative y")
  case True
  have ym: "y mod CURVE_P = y" using assms by simp
  from True have oddy: "odd y"
    by (simp add: edIsNegative_def math_mod_P ym and_one_odd)
  then have "y \<noteq> 0" by auto
  then have ypos: "0 < y" using assms by simp
  have "(- y) mod CURVE_P = CURVE_P - y"
    using ypos assms by (simp add: zmod_zminus1_eq_if)
  then have z: "z = CURVE_P - y"
    using True by (simp add: z_def math_mod_P)
  have "even (CURVE_P - y)" using oddy odd_CURVE_P by simp
  moreover have "(z * z) mod CURVE_P = (y * y) mod CURVE_P"
    using True neg_mod_sq [of y] by (simp add: z_def math_mod_P)
  ultimately show ?thesis
    using z ypos assms by (simp add: and_one_even)
next
  case False
  have ym: "y mod CURVE_P = y" using assms by simp
  from False have "even y"
    using and_one_odd [of y] by (simp add: edIsNegative_def math_mod_P ym)
  then show ?thesis
    using False assms by (simp add: z_def and_one_even)
qed

lemma root2_sq:
  "((x * SQRT_M1) mod CURVE_P * ((x * SQRT_M1) mod CURVE_P) * v) mod CURVE_P
     = (- (v * x * x)) mod CURVE_P"
proof -
  have "((x * SQRT_M1) mod CURVE_P * ((x * SQRT_M1) mod CURVE_P) * v) mod CURVE_P
      = ((x * SQRT_M1) * (x * SQRT_M1) * v) mod CURVE_P"
    by (intro mod_mult_cong mod_mod_trivial refl)
  also have "(x * SQRT_M1) * (x * SQRT_M1) * v = (v * x * x) * (SQRT_M1 * SQRT_M1)"
    by (simp add: mult_ac)
  also have "((v * x * x) * (SQRT_M1 * SQRT_M1)) mod CURVE_P
      = ((v * x * x) * ((SQRT_M1 * SQRT_M1) mod CURVE_P)) mod CURVE_P"
    by (simp only: mod_mult_right_eq)
  also have "(v * x * x) * ((SQRT_M1 * SQRT_M1) mod CURVE_P)
      = - (v * x * x) + (v * x * x) * CURVE_P"
    by (simp add: SQRT_M1_sq algebra_simps)
  also have "(- (v * x * x) + (v * x * x) * CURVE_P) mod CURVE_P = (- (v * x * x)) mod CURVE_P"
    by (simp only: mod_mult_self1)
  finally show ?thesis .
qed

lemma neg_mod_neg: "(- (a mod CURVE_P)) mod CURVE_P = (- a) mod CURVE_P"
  by (simp add: mod_minus_eq)

text \<open>
  Claim C3.  For \<open>u\<close> and \<open>v\<close> in \<open>[0, p)\<close>, \<open>uvRatio u v\<close> returns \<open>(isValid, x)\<close> with
  \<open>x\<close> in \<open>[0, p)\<close> and the least significant bit of \<open>x\<close> equal to 0, and whenever
  \<open>isValid\<close> holds, \<open>x\<^sup>2 \<cdot> v \<equiv> u (mod p)\<close>.  The function has no raising path: its only
  partial operations are remainders by \<open>p\<close>, which is not zero, and the loop of \<open>pow2\<close>
  counts down to zero.
\<close>

theorem uvRatio_spec:
  assumes u: "0 \<le> u" "u < CURVE_P" and v: "0 \<le> v" "v < CURVE_P"
  shows "case uvRatio u v of (isValid, x) \<Rightarrow>
           0 \<le> x \<and> x < CURVE_P \<and> x AND 1 = 0 \<and>
           (isValid \<longrightarrow> (x * x * v) mod CURVE_P = u)"
proof -
  define v3 where "v3 = math_mod (v * v * v) CURVE_P"
  define v7 where "v7 = math_mod (v3 * v3 * v) CURVE_P"
  define x0 where "x0 = math_mod (u * v3 * pow_2_252_3 (u * v7)) CURVE_P"
  define vx2 where "vx2 = math_mod (v * x0 * x0) CURVE_P"
  define root2 where "root2 = math_mod (x0 * SQRT_M1) CURVE_P"
  define useRoot1 where "useRoot1 = (vx2 = u)"
  define useRoot2 where "useRoot2 = (vx2 = math_mod (- u) CURVE_P)"
  define noRoot where "noRoot = (vx2 = math_mod (- u * SQRT_M1) CURVE_P)"
  define x2 where "x2 = (if useRoot2 \<or> noRoot then root2 else x0)"
  define x3 where "x3 = (if edIsNegative x2 then math_mod (- x2) CURVE_P else x2)"
  have res: "uvRatio u v = (useRoot1 \<or> useRoot2, x3)"
    unfolding uvRatio_def Let_def x3_def x2_def noRoot_def useRoot2_def useRoot1_def
      root2_def vx2_def x0_def v7_def v3_def
    by simp
  have um: "u mod CURVE_P = u" using u by simp
  have x0r: "0 \<le> x0" "x0 < CURVE_P"
    using CURVE_P_pos by (simp_all add: x0_def math_mod_P)
  have r2r: "0 \<le> root2" "root2 < CURVE_P"
    using CURVE_P_pos by (simp_all add: root2_def math_mod_P)
  have x2r: "0 \<le> x2" "x2 < CURVE_P"
    using x0r r2r by (simp_all add: x2_def)
  from uvRatio_sign_step [OF x2r]
  have x3: "0 \<le> x3" "x3 < CURVE_P" "x3 AND 1 = 0"
    and sq: "(x3 * x3) mod CURVE_P = (x2 * x2) mod CURVE_P"
    by (simp_all add: x3_def)
  have step: "(x3 * x3 * v) mod CURVE_P = (x2 * x2 * v) mod CURVE_P"
    using sq by (metis mod_mult_left_eq)
  have valid: "(x3 * x3 * v) mod CURVE_P = u" if ok: "useRoot1 \<or> useRoot2"
  proof (cases "useRoot2 \<or> noRoot")
    case True
    then have "x2 = root2" by (simp add: x2_def)
    then have e: "(x3 * x3 * v) mod CURVE_P = (- vx2) mod CURVE_P"
      using step root2_sq [of x0 v]
      by (simp add: root2_def vx2_def math_mod_P neg_mod_neg)
    show ?thesis
    proof (cases useRoot2)
      case True
      then have "(- vx2) mod CURVE_P = (- (- u)) mod CURVE_P"
        by (simp add: useRoot2_def math_mod_P neg_mod_neg)
      with e um show ?thesis by simp
    next
      case False
      with ok \<open>useRoot2 \<or> noRoot\<close> have u1: "vx2 = u" and nr: "vx2 = (- u * SQRT_M1) mod CURVE_P"
        by (simp_all add: useRoot1_def noRoot_def math_mod_P)
      have a: "u = (- u * SQRT_M1) mod CURVE_P" using u1 nr by simp
      have "(u * SQRT_M1) mod CURVE_P = ((- u * SQRT_M1) mod CURVE_P * SQRT_M1) mod CURVE_P"
        using a by simp
      also have "\<dots> = (- u * (SQRT_M1 * SQRT_M1)) mod CURVE_P"
        by (simp add: mod_mult_left_eq mult.assoc)
      also have "\<dots> = (- u * ((SQRT_M1 * SQRT_M1) mod CURVE_P)) mod CURVE_P"
        by (simp only: mod_mult_right_eq)
      also have "\<dots> = (u + (- u) * CURVE_P) mod CURVE_P"
        by (simp add: SQRT_M1_sq algebra_simps)
      also have "\<dots> = u"
        using um by (simp only: mod_mult_self1)
      finally have b: "(u * SQRT_M1) mod CURVE_P = u" .
      have "(- u) mod CURVE_P = (- ((u * SQRT_M1) mod CURVE_P)) mod CURVE_P"
        using b by simp
      also have "\<dots> = (- u * SQRT_M1) mod CURVE_P"
        by (simp add: neg_mod_neg)
      also have "\<dots> = u" using a by simp
      finally have "(- u) mod CURVE_P = u" .
      with e u1 show ?thesis by simp
    qed
  next
    case False
    then have "x2 = x0" "useRoot1" using ok by (simp_all add: x2_def)
    then have "(x3 * x3 * v) mod CURVE_P = (x0 * x0 * v) mod CURVE_P" "vx2 = u"
      using step by (simp_all add: useRoot1_def)
    then show ?thesis
      by (simp add: vx2_def math_mod_P mult_ac)
  qed
  show ?thesis
    using x3 valid by (simp add: res)
qed

text \<open>Witness for C3 at \<open>u = 4\<close>, \<open>v = 1\<close>.\<close>

theorem uvRatio_spec_witness:
  "(0::int) \<le> 4 \<and> 4 < CURVE_P \<and> (0::int) \<le> 1 \<and> 1 < CURVE_P \<and>
   (case uvRatio 4 1 of (isValid, x) \<Rightarrow>
      0 \<le> x \<and> x < CURVE_P \<and> x AND 1 = 0 \<and> (isValid \<longrightarrow> (x * x * 1) mod CURVE_P = 4))"
proof -
  have h: "(0::int) \<le> 4" "4 < CURVE_P" "(0::int) \<le> 1" "1 < CURVE_P"
    by (simp_all add: CURVE_P_def)
  show ?thesis
    using h uvRatio_spec [OF h] by simp
qed

section \<open>Correctness of the reduction, and its use as code equations\<close>

lemma fold255_diff: "x - fold255 x = drop_bit 255 x * CURVE_P"
  by (simp add: fold255_def Let_def CURVE_P_def algebra_simps)

lemma fold255_cong: "fold255 x mod CURVE_P = x mod CURVE_P"
proof -
  have "x = fold255 x + drop_bit 255 x * CURVE_P"
    using fold255_diff [of x] by simp
  then have "x mod CURVE_P = (fold255 x + drop_bit 255 x * CURVE_P) mod CURVE_P"
    by simp
  then show ?thesis
    by (simp only: mod_mult_self1)
qed

lemma redP_unfold:
  "redP x =
    (if x < CURVE_P + 19 then (if x < CURVE_P then x else x - CURVE_P) else redP (fold255 x))"
  by (subst redP.simps) (simp add: CURVE_P_def)

lemma redP_correct: "0 \<le> x \<Longrightarrow> redP x = x mod CURVE_P"
proof (induction x rule: redP.induct)
  case (1 x)
  show ?case
  proof (cases "x < CURVE_P + 19")
    case small: True
    show ?thesis
    proof (cases "x < CURVE_P")
      case True
      then have "x mod CURVE_P = x"
        using 1(2) by simp
      then show ?thesis
        using True small by (simp add: redP_unfold)
    next
      case False
      have "19 < CURVE_P"
        by (simp add: CURVE_P_def)
      then have "x - CURVE_P < CURVE_P" "0 \<le> x - CURVE_P"
        using small False by simp_all
      then have "(x - CURVE_P) mod CURVE_P = x - CURVE_P"
        by (rule_tac mod_pos_pos_trivial)
      moreover have "(x - CURVE_P) mod CURVE_P = x mod CURVE_P"
        by (rule minus_mod_self2)
      ultimately have "x mod CURVE_P = x - CURVE_P"
        by simp
      then show ?thesis
        using False small by (simp add: redP_unfold)
    qed
  next
    case False
    then have nl: "\<not> x < 57896044618658097711785492504343953926634992332820282019728792003956564819968"
      by (simp add: CURVE_P_def)
    have "0 \<le> x - fold255 x"
      using fold255_diff [of x] 1(2) CURVE_P_pos by (simp add: drop_bit_nonnegative_int_iff)
    have "0 \<le> fold255 x"
    proof -
      have "fold255 x = 19 * drop_bit 255 x + take_bit 255 x"
      proof -
        have "x = drop_bit 255 x * 2 ^ 255 + take_bit 255 x"
          by (simp only: drop_bit_eq_div take_bit_eq_mod div_mult_mod_eq)
        moreover have "(2::int) ^ 255 = 57896044618658097711785492504343953926634992332820282019728792003956564819968"
          by simp
        ultimately have "x - drop_bit 255 x * 57896044618658097711785492504343953926634992332820282019728792003956564819968 = take_bit 255 x"
          by simp
        then show ?thesis
          by (simp only: fold255_def Let_def)
      qed
      moreover have "0 \<le> drop_bit 255 x"
        using 1(2) by (simp only: drop_bit_nonnegative_int_iff)
      moreover have "0 \<le> take_bit 255 x"
        by simp
      ultimately show ?thesis
        by simp
    qed
    then have "redP (fold255 x) = fold255 x mod CURVE_P"
      using 1(1) [OF nl] by simp
    then show ?thesis
      using False by (simp add: redP_unfold fold255_cong)
  qed
qed

lemma modP_correct: "modP a = a mod CURVE_P"
proof (cases "0 \<le> a")
  case True
  then show ?thesis
    by (simp add: modP_def redP_correct)
next
  case False
  then have r: "redP (- a) = (- a) mod CURVE_P"
    by (simp add: redP_correct)
  have "a mod CURVE_P < CURVE_P"
    using CURVE_P_pos by simp
  then have "a mod CURVE_P \<noteq> 0 \<longrightarrow> CURVE_P \<noteq> a mod CURVE_P"
    by simp
  then show ?thesis
    using False r by (simp add: modP_def Let_def zmod_zminus1_eq_if CURVE_P_def [symmetric])
qed

lemma math_mod_code [code]:
  "math_mod a b =
    (if b = 57896044618658097711785492504343953926634992332820282019728792003956564819949 then modP a
     else (let res = remainder a b in if res \<ge> 0 then res else b + res))"
proof (cases "b = CURVE_P")
  case True
  then have "math_mod a b = modP a"
    by (simp only: math_mod_P modP_correct)
  then show ?thesis
    using True by (simp add: CURVE_P_def)
next
  case False
  then show ?thesis
    by (simp add: CURVE_P_def math_mod_def)
qed

lemma remainder_code [code]:
  "remainder n m =
    (if m = 57896044618658097711785492504343953926634992332820282019728792003956564819949 \<and> 0 \<le> n then redP n
     else sgn n * (\<bar>n\<bar> mod \<bar>m\<bar>))"
proof (cases "m = CURVE_P \<and> 0 \<le> n")
  case True
  then have "remainder n m = n mod CURVE_P"
    using CURVE_P_pos by (cases "n = 0") (simp_all add: remainder_def)
  then have "remainder n m = redP n"
    using True by (simp only: redP_correct)
  then show ?thesis
    using True by (simp add: CURVE_P_def)
next
  case False
  then show ?thesis
    by (auto simp add: CURVE_P_def remainder_def)
qed


end
